theory Spec2Isabelle
  imports Main
begin

section \<open>Python strings\<close>

text \<open>
  Strings are character lists. The source uses \<open>str.upper\<close> and \<open>str.lower\<close>, the
  substring test \<open>sub in s\<close>, \<open>str.split("\n")\<close>, \<open>"\n".join\<close>, and the formatting
  of integers inside f-strings. The case mappings are the ASCII ones: every character
  other than the letters \<open>a..z\<close> and \<open>A..Z\<close> is left alone.
\<close>

definition upper_char :: "char \<Rightarrow> char" where
  "upper_char c =
     (case map_of (zip ''abcdefghijklmnopqrstuvwxyz'' ''ABCDEFGHIJKLMNOPQRSTUVWXYZ'') c of
        None \<Rightarrow> c
      | Some u \<Rightarrow> u)"

definition lower_char :: "char \<Rightarrow> char" where
  "lower_char c =
     (case map_of (zip ''ABCDEFGHIJKLMNOPQRSTUVWXYZ'' ''abcdefghijklmnopqrstuvwxyz'') c of
        None \<Rightarrow> c
      | Some l \<Rightarrow> l)"

definition upper :: "string \<Rightarrow> string" where
  "upper s = map upper_char s"

definition lower :: "string \<Rightarrow> string" where
  "lower s = map lower_char s"

text \<open>\<open>starts_with p s\<close>: \<open>s\<close> begins with \<open>p\<close>.\<close>

fun starts_with :: "string \<Rightarrow> string \<Rightarrow> bool" where
  "starts_with [] s = True"
| "starts_with (p # ps) [] = False"
| "starts_with (p # ps) (c # cs) = (p = c \<and> starts_with ps cs)"

text \<open>\<open>contains sub s\<close> is Python's \<open>sub in s\<close> on strings.\<close>

fun contains :: "string \<Rightarrow> string \<Rightarrow> bool" where
  "contains sub [] = (sub = [])"
| "contains sub (c # cs) = (starts_with sub (c # cs) \<or> contains sub cs)"

text \<open>
  \<open>split_nl s\<close> is \<open>s.split("\n")\<close>. \<open>split_from cur s\<close> scans \<open>s\<close> with the piece
  \<open>cur\<close> begun before it: a line break closes the piece, the end of the string closes
  the last one.
\<close>

fun split_from :: "string \<Rightarrow> string \<Rightarrow> string list" where
  "split_from cur [] = [cur]"
| "split_from cur (c # cs) =
     (if c = CHR 0x0A then cur # split_from [] cs else split_from (cur @ [c]) cs)"

definition split_nl :: "string \<Rightarrow> string list" where
  "split_nl s = split_from [] s"

text \<open>\<open>join_nl ls\<close> is \<open>"\n".join(ls)\<close>.\<close>

fun join_nl :: "string list \<Rightarrow> string" where
  "join_nl [] = []"
| "join_nl [l] = l"
| "join_nl (l # m # ls) = l @ CHR 0x0A # join_nl (m # ls)"

text \<open>Decimal formatting of a Python integer, as \<open>str(i)\<close> and \<open>f"{i}"\<close> give it.\<close>

fun str_nat :: "nat \<Rightarrow> string" where
  "str_nat n =
     (if n < 10 then [''0123456789'' ! n]
      else str_nat (n div 10) @ [''0123456789'' ! (n mod 10)])"

declare str_nat.simps [simp del]

definition str_int :: "int \<Rightarrow> string" where
  "str_int i = (if i < 0 then CHR ''-'' # str_nat (nat (- i)) else str_nat (nat i))"

text \<open>Truth value of an optional string: \<open>None\<close> and the empty string are false.\<close>

definition truthy :: "string option \<Rightarrow> bool" where
  "truthy v = (case v of None \<Rightarrow> False | Some s \<Rightarrow> s \<noteq> [])"

text \<open>\<open>v or d\<close> on an optional string.\<close>

definition or_else :: "string option \<Rightarrow> string \<Rightarrow> string" where
  "or_else v d = (case v of None \<Rightarrow> d | Some s \<Rightarrow> if s = [] then d else s)"

section \<open>Pod records\<close>

text \<open>
  The fields of the Kubernetes objects that the source reads. A field is an \<open>option\<close>
  where the source tests it for presence before using it.
\<close>

record container_state_waiting =
  waiting_reason :: "string option"

record container_state_terminated =
  terminated_reason :: "string option"

record container_state =
  waiting :: "container_state_waiting option"
  terminated :: "container_state_terminated option"

record container_status =
  ready :: bool
  restart_count :: int
  state :: container_state

record container =
  container_name :: string
  image :: string

record pod_metadata =
  name :: string

record pod_spec =
  node_name :: "string option"
  containers :: "container list"

record pod_status =
  phase :: string
  reason :: "string option"
  pod_ip :: "string option"
  container_statuses :: "container_status list option"

record pod =
  metadata :: pod_metadata
  spec :: pod_spec
  status :: pod_status

section \<open>The cluster and the client\<close>

text \<open>
  What a call of the Kubernetes client library does: it returns a value, or it raises an
  exception (\<open>ApiException\<close> for the API calls) whose text is the string.
\<close>

datatype 'a outcome = Returns 'a | Raises string

text \<open>The keyword arguments of \<open>read_namespaced_pod_log\<close>; an argument not passed is \<open>None\<close>.\<close>

record log_request =
  req_name :: string
  req_namespace :: string
  req_container :: string
  req_follow :: "bool option"
  req_tail_lines :: "int option"

text \<open>What \<open>subprocess.run\<close> does: the process exits with a return code, or the call raises.\<close>

datatype run_outcome = Exited int | RunRaised

text \<open>
  The collaborators of the program: the API calls of \<open>core_v1\<close> (the namespace list is
  the list of the items' names), the active context's cluster name and the server's
  \<open>git_version\<close> read by \<open>get_cluster_info\<close>, and \<open>subprocess.run\<close> on an argument list.
\<close>

record cluster =
  list_namespace :: "string list outcome"
  list_namespaced_pod :: "string \<Rightarrow> pod list outcome"
  read_namespaced_pod_log :: "log_request \<Rightarrow> string outcome"
  list_kube_config_contexts :: "string option outcome"
  get_code :: "string outcome"
  subprocess_run :: "string list \<Rightarrow> run_outcome"

text \<open>
  The state of a \<open>K8sClient\<close>. \<open>logged\<close> holds the messages passed to \<open>logger.error\<close>,
  oldest first.
\<close>

record k8s_client =
  namespace :: string
  namespace_list :: "string list"
  logged :: "string list"

definition log_error :: "string \<Rightarrow> k8s_client \<Rightarrow> k8s_client" where
  "log_error msg c = c\<lparr>logged := logged c @ [msg]\<rparr>"


definition get_namespaces :: "k8s_client \<Rightarrow> string list" where
  "get_namespaces c = namespace_list c"

definition get_current_namespace :: "k8s_client \<Rightarrow> string" where
  "get_current_namespace c = namespace c"

definition set_namespace :: "string \<Rightarrow> k8s_client \<Rightarrow> k8s_client" where
  "set_namespace ns c = c\<lparr>namespace := ns\<rparr>"

definition get_pods :: "cluster \<Rightarrow> k8s_client \<Rightarrow> pod list \<times> k8s_client" where
  "get_pods env c =
     (case list_namespaced_pod env (namespace c) of
        Returns items \<Rightarrow> (items, c)
      | Raises e \<Rightarrow> ([], log_error (''Failed to list pods: '' @ e) c))"

definition get_pod_logs ::
  "cluster \<Rightarrow> k8s_client \<Rightarrow> string \<Rightarrow> string \<Rightarrow> int \<Rightarrow> string \<times> k8s_client" where
  "get_pod_logs env c pod_name cname lines =
     (case read_namespaced_pod_log env
             \<lparr>req_name = pod_name, req_namespace = namespace c, req_container = cname,
              req_follow = None, req_tail_lines = Some lines\<rparr> of
        Returns logs \<Rightarrow> (logs, c)
      | Raises e \<Rightarrow>
          (''Error: '' @ e,
           log_error (''Failed to get logs for '' @ pod_name @ ''/'' @ cname @ '': '' @ e) c))"

definition stream_pod_logs ::
  "cluster \<Rightarrow> k8s_client \<Rightarrow> string \<Rightarrow> string \<Rightarrow> string \<times> k8s_client" where
  "stream_pod_logs env c pod_name cname =
     (case read_namespaced_pod_log env
             \<lparr>req_name = pod_name, req_namespace = namespace c, req_container = cname,
              req_follow = Some False, req_tail_lines = Some 100\<rparr> of
        Returns logs \<Rightarrow> (logs, c)
      | Raises e \<Rightarrow> (''Error: '' @ e, log_error (''Failed to stream logs: '' @ e) c))"

definition get_container_names :: "pod \<Rightarrow> string list" where
  "get_container_names p = map container_name (containers (spec p))"


text \<open>
  \<open>get_cluster_info\<close>: any exception of either call is logged and answered with the
  pair of unknowns.
\<close>

definition get_cluster_info :: "cluster \<Rightarrow> k8s_client \<Rightarrow> (string \<times> string) \<times> k8s_client" where
  "get_cluster_info env c =
     (case list_kube_config_contexts env of
        Raises e \<Rightarrow> ((''unknown'', ''unknown''), log_error (''Failed to get cluster info: '' @ e) c)
      | Returns active \<Rightarrow>
          (case get_code env of
             Raises e \<Rightarrow>
               ((''unknown'', ''unknown''), log_error (''Failed to get cluster info: '' @ e) c)
           | Returns version \<Rightarrow>
               ((case active of None \<Rightarrow> ''unknown'' | Some cluster_name \<Rightarrow> cluster_name,
                 version), c)))"

section \<open>K8sClient.get\_pod\_status\<close>

text \<open>
  The reason an entry assigns to \<open>phase\<close> in the \<open>if\<close> branch (its waiting state is set
  and carries a non-empty reason) and in the \<open>elif\<close> branch (the same for its terminated
  state); \<open>None\<close> when the branch is not taken.
\<close>

definition waiting_branch :: "container_status \<Rightarrow> string option" where
  "waiting_branch cs =
     (case waiting (state cs) of
        None \<Rightarrow> None
      | Some w \<Rightarrow> if truthy (waiting_reason w) then waiting_reason w else None)"

definition terminated_branch :: "container_status \<Rightarrow> string option" where
  "terminated_branch cs =
     (case terminated (state cs) of
        None \<Rightarrow> None
      | Some t \<Rightarrow> if truthy (terminated_reason t) then terminated_reason t else None)"

text \<open>
  The body of the loop over \<open>pod.status.container_statuses\<close>: the new values of
  \<open>phase\<close>, \<open>restarts\<close> and \<open>ready\<close> after one entry.
\<close>

definition status_step ::
  "container_status \<Rightarrow> string \<times> int \<times> int \<Rightarrow> string \<times> int \<times> int" where
  "status_step cs acc =
     (case acc of (ph, restarts, ready_count) \<Rightarrow>
        (case waiting_branch cs of
           Some r \<Rightarrow> r
         | None \<Rightarrow> (case terminated_branch cs of Some r \<Rightarrow> r | None \<Rightarrow> ph),
         restarts + restart_count cs,
         if ready cs then ready_count + 1 else ready_count))"

fun status_loop ::
  "container_status list \<Rightarrow> string \<times> int \<times> int \<Rightarrow> string \<times> int \<times> int" where
  "status_loop [] acc = acc"
| "status_loop (cs # rest) acc = status_loop rest (status_step cs acc)"

text \<open>
  The values of \<open>phase\<close>, \<open>ready\<close>, \<open>total\<close> and \<open>restarts\<close> when \<open>get_pod_status\<close>
  reaches its return statement.
\<close>

definition status_summary :: "pod \<Rightarrow> string \<times> int \<times> int \<times> int" where
  "status_summary p =
     (let phase0 = (case reason (status p) of
                      None \<Rightarrow> phase (status p)
                    | Some r \<Rightarrow> if r = [] then phase (status p) else r);
          total_count = (case container_statuses (status p) of
                     None \<Rightarrow> 0
                   | Some css \<Rightarrow> if css = [] then 0 else int (length css))
      in case container_statuses (status p) of
           None \<Rightarrow> (phase0, 0, total_count, 0)
         | Some css \<Rightarrow>
             if css = [] then (phase0, 0, total_count, 0)
             else (case status_loop css (phase0, 0, 0) of
                     (ph, restarts, ready_count) \<Rightarrow> (ph, ready_count, total_count, restarts)))"

definition get_pod_status :: "pod \<Rightarrow> string" where
  "get_pod_status p =
     (case status_summary p of (ph, ready_count, total_count, restarts) \<Rightarrow>
        ph @ '' ('' @ str_int ready_count @ ''/'' @ str_int total_count
          @ '') Restarts:'' @ str_int restarts)"

section \<open>The application\<close>

text \<open>The bullet character U+25CF of the labels, in UTF-8.\<close>

definition bullet :: string where
  "bullet = [CHR 0xE2, CHR 0x97, CHR 0x8F]"

text \<open>
  The state of a \<open>LazyK8sApp\<close>: its attributes, the client it holds, and the contents of
  its widgets. \<open>pods_list\<close> holds the pod of each \<open>PodItem\<close>, \<open>containers_list\<close> the name
  of each \<open>ContainerItem\<close>, \<open>logs_panel\<close> the strings written since the last clear.
\<close>

record lazyk8s_app =
  client :: k8s_client
  pods :: "pod list"
  selected_pod :: "pod option"
  selected_container :: "string option"
  current_namespace :: string
  status_bar :: string
  pods_list :: "pod list"
  containers_list :: "string list"
  info_panel :: string
  logs_panel :: "string list"

text \<open>The label a \<open>PodItem\<close> shows for its pod.\<close>

definition pod_item_label :: "pod \<Rightarrow> string" where
  "pod_item_label p =
     (let css = (case container_statuses (status p) of None \<Rightarrow> [] | Some l \<Rightarrow> l);
          icon =
            (if phase (status p) = ''Running'' then
               (if length (filter ready css) = length css \<and> length css > 0
                then ''[green]'' @ bullet @ ''[/]''
                else ''[yellow]'' @ bullet @ ''[/]'')
             else if phase (status p) = ''Pending'' then ''[yellow]'' @ bullet @ ''[/]''
             else ''[red]'' @ bullet @ ''[/]'')
      in icon @ '' '' @ name (metadata p))"

definition app_init :: "k8s_client \<Rightarrow> lazyk8s_app" where
  "app_init c =
     \<lparr>client = c, pods = [], selected_pod = None, selected_container = None,
      current_namespace = get_current_namespace c, status_bar = [], pods_list = [],
      containers_list = [], info_panel = [], logs_panel = []\<rparr>"

definition refresh_status_bar :: "cluster \<Rightarrow> lazyk8s_app \<Rightarrow> lazyk8s_app" where
  "refresh_status_bar env app =
     (case get_cluster_info env (client app) of
        ((host, version), c) \<Rightarrow>
          app\<lparr>client := c,
              status_bar := ''[b]lazyk8s[/] [dim]'' @ version @ ''[/]  [cyan]'' @ bullet
                            @ ''[/] '' @ get_current_namespace c\<rparr>)"

definition refresh_pods :: "cluster \<Rightarrow> lazyk8s_app \<Rightarrow> lazyk8s_app" where
  "refresh_pods env app =
     (case get_pods env (client app) of
        (items, c) \<Rightarrow> app\<lparr>client := c, pods := items, pods_list := items\<rparr>)"

definition refresh_containers :: "lazyk8s_app \<Rightarrow> lazyk8s_app" where
  "refresh_containers app =
     app\<lparr>containers_list :=
           (case selected_pod app of None \<Rightarrow> [] | Some p \<Rightarrow> get_container_names p)\<rparr>"

definition show_pod_info :: "lazyk8s_app \<Rightarrow> lazyk8s_app" where
  "show_pod_info app =
     (case selected_pod app of
        None \<Rightarrow> app\<lparr>info_panel := ''[dim]no pod selected[/]''\<rparr>
      | Some p \<Rightarrow>
          app\<lparr>info_panel := join_nl
            ([''[b]'' @ name (metadata p) @ ''[/]'',
              ''[dim]node:[/] '' @ or_else (node_name (spec p)) ''n/a''
                @ ''  [dim]ip:[/] '' @ or_else (pod_ip (status p)) ''n/a'',
              []]
             @ concat (map (\<lambda>c. [''[cyan]'' @ bullet @ ''[/] '' @ container_name c,
                                  ''  [dim]'' @ image c @ ''[/]''])
                           (containers (spec p))))\<rparr>)"

subsection \<open>Log lines\<close>

datatype severity = Error | Warning | Normal

text \<open>The branch of the \<open>if\<close>/\<open>elif\<close>/\<open>else\<close> that a line of the log takes.\<close>

definition line_severity :: "string \<Rightarrow> severity" where
  "line_severity line =
     (if list_ex (\<lambda>level. contains level (upper line)) [''ERROR'', ''FATAL''] then Error
      else if list_ex (\<lambda>level. contains level (upper line)) [''WARN'', ''WARNING''] then Warning
      else Normal)"

text \<open>What that branch writes to the panel.\<close>

definition styled :: "severity \<Rightarrow> string \<Rightarrow> string" where
  "styled sev line =
     (case sev of
        Error \<Rightarrow> ''[red]'' @ line @ ''[/]''
      | Warning \<Rightarrow> ''[yellow]'' @ line @ ''[/]''
      | Normal \<Rightarrow> line)"

text \<open>
  The loop over \<open>logs.split("\n")\<close>: the lines it keeps, each with the branch it takes,
  and the strings it writes.
\<close>

definition present :: "string \<Rightarrow> (string \<times> severity) list" where
  "present logs =
     map (\<lambda>line. (line, line_severity line)) (filter (\<lambda>line. line \<noteq> []) (split_nl logs))"

definition log_writes :: "string \<Rightarrow> string list" where
  "log_writes logs = map (\<lambda>(line, sev). styled sev line) (present logs)"

definition show_pod_logs :: "cluster \<Rightarrow> lazyk8s_app \<Rightarrow> lazyk8s_app" where
  "show_pod_logs env app =
     (case selected_pod app of
        None \<Rightarrow> app\<lparr>logs_panel := [''[dim]no pod selected[/]'']\<rparr>
      | Some p \<Rightarrow>
          (case get_container_names p of
             [] \<Rightarrow> app\<lparr>logs_panel := [''[dim]no containers found[/]'']\<rparr>
           | first # others \<Rightarrow>
               (case get_pod_logs env (client app) (name (metadata p))
                       (or_else (selected_container app) first) 100 of
                  (logs, c) \<Rightarrow> app\<lparr>client := c, logs_panel := log_writes logs\<rparr>)))"

subsection \<open>Event handlers\<close>

text \<open>The items a list view can hold, and the event of selecting one in the view \<open>id\<close>.\<close>

datatype list_item = PodItem pod | ContainerItem string | OtherItem

record selected_event =
  list_view_id :: string
  item :: list_item

definition on_list_view_selected ::
  "cluster \<Rightarrow> selected_event \<Rightarrow> lazyk8s_app \<Rightarrow> lazyk8s_app" where
  "on_list_view_selected env event app =
     (if list_view_id event = ''pods-list'' then
        (case item event of
           PodItem p \<Rightarrow>
             show_pod_logs env (show_pod_info (refresh_containers
               (app\<lparr>selected_pod := Some p, selected_container := None\<rparr>)))
         | _ \<Rightarrow> app)
      else if list_view_id event = ''containers-list'' then
        (case item event of
           ContainerItem cname \<Rightarrow> show_pod_logs env (app\<lparr>selected_container := Some cname\<rparr>)
         | _ \<Rightarrow> app)
      else app)"

definition action_refresh :: "cluster \<Rightarrow> lazyk8s_app \<Rightarrow> lazyk8s_app" where
  "action_refresh env app =
     (let app1 = refresh_pods env app in
      case selected_pod app1 of
        None \<Rightarrow> app1
      | Some p \<Rightarrow> show_pod_logs env (show_pod_info (refresh_containers app1)))"

definition action_change_namespace :: "cluster \<Rightarrow> lazyk8s_app \<Rightarrow> lazyk8s_app" where
  "action_change_namespace env app = refresh_status_bar env app"

definition action_view_logs :: "cluster \<Rightarrow> lazyk8s_app \<Rightarrow> lazyk8s_app" where
  "action_view_logs env app =
     (case selected_pod app of None \<Rightarrow> app | Some p \<Rightarrow> show_pod_logs env app)"

subsection \<open>Opening a shell\<close>

definition shell_candidates :: "string list" where
  "shell_candidates = [''/bin/bash'', ''/bin/sh'', ''/bin/ash'']"

definition kubectl_exec :: "string \<Rightarrow> string \<Rightarrow> string \<Rightarrow> string \<Rightarrow> string list" where
  "kubectl_exec ns pod_name cname shell =
     [''kubectl'', ''exec'', ''-it'', ''-n'', ns, pod_name, ''-c'', cname, ''--'', shell]"

text \<open>
  The loop over the candidates: the shells whose command is passed to \<open>subprocess.run\<close>,
  in the order of the calls. A return code of 0 ends the loop; any other return code
  and an exception of the call go on to the next candidate.
\<close>

fun try_shells :: "(string \<Rightarrow> run_outcome) \<Rightarrow> string list \<Rightarrow> string list" where
  "try_shells run [] = []"
| "try_shells run (shell # rest) =
     (case run shell of
        Exited rc \<Rightarrow> if rc = 0 then [shell] else shell # try_shells run rest
      | RunRaised \<Rightarrow> shell # try_shells run rest)"

text \<open>
  \<open>action_open_shell\<close> returns nothing; the model returns the shells it tried and the
  state it leaves.
\<close>

definition action_open_shell :: "cluster \<Rightarrow> lazyk8s_app \<Rightarrow> string list \<times> lazyk8s_app" where
  "action_open_shell env app =
     (case selected_pod app of
        None \<Rightarrow> ([], app)
      | Some p \<Rightarrow>
          (case get_container_names p of
             [] \<Rightarrow> ([], app)
           | first # others \<Rightarrow>
               (let cname = or_else (selected_container app) first;
                    ns = get_current_namespace (client app);
                    tried = try_shells
                      (\<lambda>shell. subprocess_run env (kubectl_exec ns (name (metadata p)) cname shell))
                      shell_candidates;
                    app1 = refresh_pods env app
                in (tried,
                    case selected_pod app1 of
                      None \<Rightarrow> app1
                    | Some p1 \<Rightarrow> show_pod_logs env (show_pod_info app1)))))"

section \<open>Notions of the specification\<close>

text \<open>The container-status list of a pod record: empty when none is reported.\<close>

definition statuses :: "pod \<Rightarrow> container_status list" where
  "statuses p = (case container_statuses (status p) of None \<Rightarrow> [] | Some css \<Rightarrow> css)"

text \<open>
  The reason one container status carries: its non-empty waiting reason, otherwise its
  non-empty terminated reason. \<open>override_reasons\<close> lists them in list order.
\<close>

definition override_reason :: "container_status \<Rightarrow> string option" where
  "override_reason cs =
     (case waiting_branch cs of Some r \<Rightarrow> Some r | None \<Rightarrow> terminated_branch cs)"

definition override_reasons :: "pod \<Rightarrow> string list" where
  "override_reasons p = List.map_filter override_reason (statuses p)"



text \<open>The cascade invariant: no container is selected while no pod is.\<close>

definition cascade_invariant :: "lazyk8s_app \<Rightarrow> bool" where
  "cascade_invariant app = (selected_pod app = None \<longrightarrow> selected_container app = None)"

text \<open>
  The shells the loop of \<open>action_open_shell\<close> is expected to try when \<open>run\<close> tells what
  each does: every candidate before the first that exits with code 0, and that one.
\<close>

definition up_to_first_success :: "(string \<Rightarrow> run_outcome) \<Rightarrow> string list \<Rightarrow> string list" where
  "up_to_first_success run shells =
     takeWhile (\<lambda>s. run s \<noteq> Exited 0) shells
       @ take 1 (dropWhile (\<lambda>s. run s \<noteq> Exited 0) shells)"

section \<open>Example data\<close>

definition web_pod :: pod where
  "web_pod =
     \<lparr>metadata = \<lparr>name = ''web-1''\<rparr>,
      spec = \<lparr>node_name = Some ''node-a'',
              containers = [\<lparr>container_name = ''app'', image = ''nginx:1.25''\<rparr>,
                            \<lparr>container_name = ''sidecar'', image = ''envoy:1.30''\<rparr>]\<rparr>,
      status = \<lparr>phase = ''Running'', reason = Some ''Evicted'', pod_ip = None,
                container_statuses = Some
                  [\<lparr>ready = True, restart_count = 2,
                    state = \<lparr>waiting = None,
                             terminated = Some \<lparr>terminated_reason = Some ''Completed''\<rparr>\<rparr>\<rparr>,
                   \<lparr>ready = False, restart_count = 0,
                    state = \<lparr>waiting = Some \<lparr>waiting_reason = Some []\<rparr>, terminated = None\<rparr>\<rparr>,
                   \<lparr>ready = False, restart_count = 5,
                    state = \<lparr>waiting = Some \<lparr>waiting_reason = Some ''CrashLoopBackOff''\<rparr>,
                             terminated = Some \<lparr>terminated_reason = Some ''Error''\<rparr>\<rparr>\<rparr>]\<rparr>\<rparr>"

definition some_client :: k8s_client where
  "some_client =
     \<lparr>namespace = ''default'',
      namespace_list = [''Default'', ''kube-system'', ''prod-eu''],
      logged = []\<rparr>"

text \<open>An application in which the pod \<open>web-1\<close> and its container \<open>app\<close> are selected.\<close>

definition web_app :: lazyk8s_app where
  "web_app =
     (app_init some_client)
       \<lparr>pods := [web_pod], selected_pod := Some web_pod, selected_container := Some ''app'',
        pods_list := [web_pod], containers_list := [''app'', ''sidecar'']\<rparr>"

definition example_log :: string where
  "example_log =
     ''INFO ok'' @ [CHR 0x0A, CHR 0x0A] @ ''ERROR boom'' @ [CHR 0x0A] @ ''WARN low disk''"

text \<open>
  A cluster whose namespace holds no pod, whose every log is the example log, and in
  which every shell exits with 0.
\<close>

definition quiet_cluster :: cluster where
  "quiet_cluster =
     \<lparr>list_namespace = Returns [''default''],
      list_namespaced_pod = (\<lambda>ns. Returns []),
      read_namespaced_pod_log = (\<lambda>req. Returns example_log),
      list_kube_config_contexts = Returns None,
      get_code = Returns ''v1.30.0'',
      subprocess_run = (\<lambda>argv. Exited 0)\<rparr>"

text \<open>
  A cluster whose every API call raises, and in which \<open>/bin/bash\<close> starts and exits
  with code 130 while the other shells exit with 0.
\<close>

definition failing_cluster :: cluster where
  "failing_cluster =
     \<lparr>list_namespace = Raises ''(503)'',
      list_namespaced_pod = (\<lambda>ns. Raises ''(503)''),
      read_namespaced_pod_log = (\<lambda>req. Raises ''(503)''),
      list_kube_config_contexts = Raises ''(503)'',
      get_code = Raises ''(503)'',
      subprocess_run = (\<lambda>argv. if last argv = ''/bin/bash'' then Exited 130 else Exited 0)\<rparr>"

section \<open>Strings\<close>



lemma lower_upper_char: "lower_char (upper_char c) = lower_char c"
  by (simp add: upper_char_def lower_char_def)

lemma upper_lower_char: "upper_char (lower_char c) = upper_char c"
  by (simp add: upper_char_def lower_char_def)

lemma lower_upper: "lower (upper s) = lower s"
  by (simp add: lower_def upper_def lower_upper_char)

lemma upper_lower: "upper (lower s) = upper s"
  by (simp add: lower_def upper_def upper_lower_char)

lemma upper_eq_iff: "upper a = upper b \<longleftrightarrow> lower a = lower b"
  by (metis lower_upper upper_lower)












section \<open>The status loop\<close>

lemma status_loop_counts:
  "snd (status_loop css (ph, r, k)) =
     (r + sum_list (map restart_count css), k + int (length (filter ready css)))"
  by (induction css arbitrary: ph r k) (simp_all add: status_step_def)

lemma status_step_phase:
  "status_step cs (ph, r, k) =
     (case override_reason cs of Some x \<Rightarrow> x | None \<Rightarrow> ph,
      r + restart_count cs, if ready cs then k + 1 else k)"
  by (simp add: status_step_def override_reason_def split: option.splits)

lemma status_loop_phase:
  "fst (status_loop css (ph, r, k)) =
     (case List.map_filter override_reason css of [] \<Rightarrow> ph | x # xs \<Rightarrow> last (x # xs))"
proof (induction css arbitrary: ph r k)
  case Nil
  then show ?case by (simp add: List.map_filter_simps)
next
  case (Cons cs css)
  show ?case
    by (cases "override_reason cs"; cases "List.map_filter override_reason css")
       (simp_all add: status_step_phase Cons List.map_filter_simps)
qed

lemma status_summary_eq:
  "status_summary p =
     (case override_reasons p of
        [] \<Rightarrow> or_else (reason (status p)) (phase (status p))
      | x # xs \<Rightarrow> last (x # xs),
      int (length (filter ready (statuses p))),
      int (length (statuses p)),
      sum_list (map restart_count (statuses p)))"
proof (cases "container_statuses (status p)")
  case None
  then show ?thesis
    by (simp add: status_summary_def statuses_def override_reasons_def or_else_def
        List.map_filter_simps)
next
  case (Some css)
  let ?ph0 = "or_else (reason (status p)) (phase (status p))"
  obtain ph r k where L: "status_loop css (?ph0, 0, 0) = (ph, r, k)"
    by (metis prod_cases3)
  have "ph = (case List.map_filter override_reason css of [] \<Rightarrow> ?ph0 | x # xs \<Rightarrow> last (x # xs))"
    using status_loop_phase [of css ?ph0 0 0] L by simp
  moreover have "r = sum_list (map restart_count css)" "k = int (length (filter ready css))"
    using status_loop_counts [of css ?ph0 0 0] L by simp_all
  moreover have "status_summary p =
      (if css = [] then (?ph0, 0, 0, 0) else (ph, k, int (length css), r))"
    using Some L by (simp add: status_summary_def or_else_def)
  ultimately show ?thesis
    using Some by (auto simp: statuses_def override_reasons_def List.map_filter_simps)
qed

section \<open>What the handlers leave alone\<close>

lemma get_cluster_info_namespace:
  "namespace (snd (get_cluster_info env c)) = namespace c"
  "namespace_list (snd (get_cluster_info env c)) = namespace_list c"
  by (simp_all add: get_cluster_info_def log_error_def split: outcome.splits)

lemma refresh_status_bar_keeps:
  "pods (refresh_status_bar env app) = pods app"
  "selected_pod (refresh_status_bar env app) = selected_pod app"
  "selected_container (refresh_status_bar env app) = selected_container app"
  "current_namespace (refresh_status_bar env app) = current_namespace app"
  by (simp_all add: refresh_status_bar_def split: prod.splits)

lemma refresh_status_bar_client:
  "client (refresh_status_bar env app) = snd (get_cluster_info env (client app))"
  by (simp add: refresh_status_bar_def split: prod.splits)

lemma refresh_pods_keeps:
  "selected_pod (refresh_pods env app) = selected_pod app"
  "selected_container (refresh_pods env app) = selected_container app"
  "pods (refresh_pods env app) = fst (get_pods env (client app))"
  by (simp_all add: refresh_pods_def split: prod.splits)

lemma refresh_containers_keeps:
  "selected_pod (refresh_containers app) = selected_pod app"
  "selected_container (refresh_containers app) = selected_container app"
  "pods (refresh_containers app) = pods app"
  by (simp_all add: refresh_containers_def)

lemma show_pod_info_keeps:
  "selected_pod (show_pod_info app) = selected_pod app"
  "selected_container (show_pod_info app) = selected_container app"
  "pods (show_pod_info app) = pods app"
  by (simp_all add: show_pod_info_def split: option.splits)

lemma show_pod_logs_keeps:
  "selected_pod (show_pod_logs env app) = selected_pod app"
  "selected_container (show_pod_logs env app) = selected_container app"
  "pods (show_pod_logs env app) = pods app"
  by (simp_all add: show_pod_logs_def split: option.splits list.splits prod.splits)

lemmas keeps =
  refresh_status_bar_keeps refresh_pods_keeps refresh_containers_keeps show_pod_info_keeps
  show_pod_logs_keeps

lemma action_refresh_keeps:
  "selected_pod (action_refresh env app) = selected_pod app"
  "selected_container (action_refresh env app) = selected_container app"
  "pods (action_refresh env app) = fst (get_pods env (client app))"
  by (simp_all add: action_refresh_def Let_def keeps split: option.splits)

lemma action_open_shell_keeps:
  "selected_pod (snd (action_open_shell env app)) = selected_pod app"
  "selected_container (snd (action_open_shell env app)) = selected_container app"
  by (simp_all add: action_open_shell_def Let_def keeps split: option.splits list.splits)

lemma try_shells_eq: "try_shells run shells = up_to_first_success run shells"
  unfolding up_to_first_success_def
  by (induction shells) (auto split: run_outcome.splits)

section \<open>The claims\<close>

text \<open>
  C1, as the code has it. \<open>refresh_pods\<close> replaces the cached pod list by the list the
  client fetches and leaves the selected pod and the selected container as they were,
  also when no record of the new list matches the selected pod; \<open>action_refresh\<close> does
  the same. So a refresh keeps the cascade invariant of the state it starts from.
\<close>

theorem refresh_pods_keeps_selection:
  "pods (refresh_pods env app) = fst (get_pods env (client app)) \<and>
   selected_pod (refresh_pods env app) = selected_pod app \<and>
   selected_container (refresh_pods env app) = selected_container app \<and>
   pods (action_refresh env app) = fst (get_pods env (client app)) \<and>
   selected_pod (action_refresh env app) = selected_pod app \<and>
   selected_container (action_refresh env app) = selected_container app \<and>
   (cascade_invariant app \<longrightarrow>
      cascade_invariant (refresh_pods env app) \<and> cascade_invariant (action_refresh env app))"
  by (simp add: refresh_pods_keeps action_refresh_keeps cascade_invariant_def)

theorem refresh_pods_keeps_selection_witness:
  "cascade_invariant web_app \<and>
   pods (refresh_pods quiet_cluster web_app) = [] \<and>
   selected_pod (refresh_pods quiet_cluster web_app) = Some web_pod \<and>
   selected_container (action_refresh quiet_cluster web_app) = Some ''app'' \<and>
   cascade_invariant (refresh_pods quiet_cluster web_app) \<and>
   cascade_invariant (action_refresh quiet_cluster web_app)"
  using refresh_pods_keeps_selection [of quiet_cluster web_app]
  by (simp add: cascade_invariant_def web_app_def app_init_def get_pods_def quiet_cluster_def)

text \<open>
  C1 as stated fails: the pod \<open>web-1\<close> and its container \<open>app\<close> are selected, the
  refreshed list is empty, and both stay selected.
\<close>

theorem refresh_pods_stale_selection:
  "pods (refresh_pods quiet_cluster web_app) = [] \<and>
   selected_pod (refresh_pods quiet_cluster web_app) \<noteq> None \<and>
   selected_container (refresh_pods quiet_cluster web_app) \<noteq> None"
  by (simp add: refresh_pods_def get_pods_def quiet_cluster_def web_app_def app_init_def)

text \<open>
  C2. For every pod record the ready count of \<open>get_pod_status\<close> is at most the total
  count, the total count is the length of the container-status list (0 when the list is
  absent or empty), and the restart count is the sum of the entries' restart counts.
\<close>

theorem get_pod_status_counts:
  "case status_summary p of (ph, ready_count, total_count, restarts) \<Rightarrow>
     ready_count \<le> total_count \<and>
     total_count = int (length (statuses p)) \<and>
     restarts = sum_list (map restart_count (statuses p))"
  by (simp add: status_summary_eq)

theorem get_pod_status_counts_witness:
  "(case status_summary web_pod of (ph, ready_count, total_count, restarts) \<Rightarrow>
      ready_count \<le> total_count \<and> total_count = 3 \<and> restarts = 7) \<and>
   get_pod_status web_pod = ''CrashLoopBackOff (1/3) Restarts:7''"
proof -
  have "statuses web_pod = the (container_statuses (status web_pod))"
    by (simp add: statuses_def web_pod_def)
  then have "int (length (statuses web_pod)) = 3"
        and "sum_list (map restart_count (statuses web_pod)) = 7"
    by (simp_all add: web_pod_def)
  moreover have "get_pod_status web_pod = ''CrashLoopBackOff (1/3) Restarts:7''"
    by (simp add: get_pod_status_def status_summary_def web_pod_def status_step_def
        waiting_branch_def terminated_branch_def truthy_def str_int_def str_nat.simps)
  ultimately show ?thesis
    using get_pod_status_counts [of web_pod] by (simp split: prod.splits)
qed

text \<open>
  C3. When some container status carries a non-empty waiting reason or, otherwise, a
  non-empty terminated reason, the phase of \<open>get_pod_status\<close> is the last such reason in
  list order, whatever the raw phase and the pod's own reason are. In one entry the
  waiting reason goes before the terminated reason: when the last entry has a non-empty
  waiting reason, that is the phase.
\<close>

theorem get_pod_status_last_reason:
  "(override_reasons p \<noteq> [] \<longrightarrow> fst (status_summary p) = last (override_reasons p)) \<and>
   (\<forall>css cs w r.
      container_statuses (status p) = Some (css @ [cs]) \<and> waiting (state cs) = Some w \<and>
      waiting_reason w = Some r \<and> r \<noteq> [] \<longrightarrow> fst (status_summary p) = r)"
proof -
  have first: "fst (status_summary p) = last (override_reasons p)" if "override_reasons p \<noteq> []"
    using that by (cases "override_reasons p") (simp_all add: status_summary_eq)
  have "fst (status_summary p) = r"
    if "container_statuses (status p) = Some (css @ [cs])" "waiting (state cs) = Some w"
       "waiting_reason w = Some r" "r \<noteq> []" for css cs w r
  proof -
    have "override_reason cs = Some r"
      using that by (simp add: override_reason_def waiting_branch_def truthy_def)
    then have "override_reasons p = List.map_filter override_reason css @ [r]"
      using that(1) by (simp add: override_reasons_def statuses_def List.map_filter_def)
    then show ?thesis using first by simp
  qed
  with first show ?thesis by blast
qed

theorem get_pod_status_last_reason_witness:
  "override_reasons web_pod = [''Completed'', ''CrashLoopBackOff''] \<and>
   reason (status web_pod) = Some ''Evicted'' \<and>
   fst (status_summary web_pod) = ''CrashLoopBackOff''"
proof -
  have "override_reasons web_pod = [''Completed'', ''CrashLoopBackOff'']"
    by (simp add: override_reasons_def statuses_def web_pod_def List.map_filter_simps
        override_reason_def waiting_branch_def terminated_branch_def truthy_def)
  then show ?thesis
    using get_pod_status_last_reason [of web_pod] by (simp add: web_pod_def)
qed

text \<open>
  C4, as the code has it. \<open>set_namespace\<close> sets the client's current namespace and
  nothing else: in an application holding that client the cached pod list, the selected
  pod, the selected container and the application's own \<open>current_namespace\<close> stay as
  they were. \<open>action_change_namespace\<close> only redraws the status bar: it changes neither
  the client's namespace nor the pod list nor the selection.
\<close>

theorem set_namespace_keeps_selection:
  "get_current_namespace (set_namespace ns c) = ns \<and>
   namespace_list (set_namespace ns c) = namespace_list c \<and>
   pods (app\<lparr>client := set_namespace ns (client app)\<rparr>) = pods app \<and>
   selected_pod (app\<lparr>client := set_namespace ns (client app)\<rparr>) = selected_pod app \<and>
   selected_container (app\<lparr>client := set_namespace ns (client app)\<rparr>) = selected_container app \<and>
   current_namespace (app\<lparr>client := set_namespace ns (client app)\<rparr>) = current_namespace app \<and>
   get_current_namespace (client (action_change_namespace env app))
     = get_current_namespace (client app) \<and>
   pods (action_change_namespace env app) = pods app \<and>
   selected_pod (action_change_namespace env app) = selected_pod app \<and>
   selected_container (action_change_namespace env app) = selected_container app"
  by (simp add: set_namespace_def get_current_namespace_def action_change_namespace_def
      refresh_status_bar_keeps refresh_status_bar_client get_cluster_info_namespace)

theorem set_namespace_keeps_selection_witness:
  "get_current_namespace (set_namespace ''staging'' some_client) = ''staging'' \<and>
   selected_pod (web_app\<lparr>client := set_namespace ''staging'' (client web_app)\<rparr>) = Some web_pod \<and>
   selected_container (web_app\<lparr>client := set_namespace ''staging'' (client web_app)\<rparr>)
     = Some ''app'' \<and>
   get_current_namespace (client (action_change_namespace quiet_cluster web_app)) = ''default''"
  using set_namespace_keeps_selection [of "''staging''" some_client web_app quiet_cluster]
  by (simp add: web_app_def app_init_def some_client_def get_current_namespace_def)

text \<open>
  C4 as stated fails: with \<open>web-1\<close> and \<open>app\<close> selected, setting the namespace to
  \<open>staging\<close> sets the namespace and leaves the pod list and the selection in place.
\<close>

theorem set_namespace_stale_selection:
  "get_current_namespace (client (web_app\<lparr>client := set_namespace ''staging'' (client web_app)\<rparr>))
     = ''staging'' \<and>
   pods (web_app\<lparr>client := set_namespace ''staging'' (client web_app)\<rparr>) \<noteq> [] \<and>
   selected_pod (web_app\<lparr>client := set_namespace ''staging'' (client web_app)\<rparr>) \<noteq> None \<and>
   selected_container (web_app\<lparr>client := set_namespace ''staging'' (client web_app)\<rparr>) \<noteq> None"
  by (simp add: set_namespace_def get_current_namespace_def web_app_def app_init_def)








text \<open>
  C8, as the code has it. The candidates \<open>/bin/bash\<close>, \<open>/bin/sh\<close> and \<open>/bin/ash\<close> are
  tried in this order, and the loop stops after the first whose process exits with code
  0: a candidate that exits with another code is followed by the next one, as is one
  whose start raises. The action leaves the selection as it was, and the state it
  leaves does not depend on what the shells did: no failure is recorded.
\<close>

theorem try_shells_until_exit_zero:
  "try_shells run shells = up_to_first_success run shells \<and>
   shell_candidates = [''/bin/bash'', ''/bin/sh'', ''/bin/ash''] \<and>
   (selected_pod app = Some p \<and> get_container_names p \<noteq> [] \<longrightarrow>
    fst (action_open_shell env app) =
      up_to_first_success
        (\<lambda>shell. subprocess_run env
           (kubectl_exec (get_current_namespace (client app)) (name (metadata p))
              (or_else (selected_container app) (hd (get_container_names p))) shell))
        shell_candidates) \<and>
   selected_pod (snd (action_open_shell env app)) = selected_pod app \<and>
   selected_container (snd (action_open_shell env app)) = selected_container app \<and>
   snd (action_open_shell (env\<lparr>subprocess_run := run'\<rparr>) app) = snd (action_open_shell env app)"
proof -
  have "snd (action_open_shell (env\<lparr>subprocess_run := run'\<rparr>) app) = snd (action_open_shell env app)"
    by (simp add: action_open_shell_def Let_def refresh_pods_def get_pods_def show_pod_logs_def
        get_pod_logs_def split: option.splits list.splits)
  moreover have "fst (action_open_shell env app) =
      up_to_first_success
        (\<lambda>shell. subprocess_run env
           (kubectl_exec (get_current_namespace (client app)) (name (metadata p))
              (or_else (selected_container app) (hd (get_container_names p))) shell))
        shell_candidates"
    if "selected_pod app = Some p" "get_container_names p \<noteq> []"
    using that
    by (cases "get_container_names p") (simp_all add: action_open_shell_def Let_def try_shells_eq)
  ultimately show ?thesis
    by (simp add: try_shells_eq action_open_shell_keeps shell_candidates_def)
qed

theorem try_shells_until_exit_zero_witness:
  "selected_pod web_app = Some web_pod \<and> get_container_names web_pod \<noteq> [] \<and>
   fst (action_open_shell quiet_cluster web_app) = [''/bin/bash''] \<and>
   fst (action_open_shell failing_cluster web_app) = [''/bin/bash'', ''/bin/sh''] \<and>
   selected_container (snd (action_open_shell failing_cluster web_app)) = Some ''app''"
proof -
  have sel: "selected_pod web_app = Some web_pod" "selected_container web_app = Some ''app''"
    by (simp_all add: web_app_def app_init_def)
  have names: "get_container_names web_pod = [''app'', ''sidecar'']"
    by (simp add: get_container_names_def web_pod_def)
  have "fst (action_open_shell quiet_cluster web_app) = [''/bin/bash'']"
    using try_shells_until_exit_zero [of _ _ web_app web_pod quiet_cluster _] sel names
    by (simp add: up_to_first_success_def shell_candidates_def quiet_cluster_def)
  moreover have "fst (action_open_shell failing_cluster web_app) = [''/bin/bash'', ''/bin/sh'']"
    using try_shells_until_exit_zero [of _ _ web_app web_pod failing_cluster _] sel names
    by (simp add: up_to_first_success_def shell_candidates_def failing_cluster_def
        kubectl_exec_def)
  moreover have "selected_container (snd (action_open_shell failing_cluster web_app)) = Some ''app''"
    using try_shells_until_exit_zero [of "\<lambda>s. RunRaised" "[]" web_app web_pod failing_cluster _] sel
    by simp
  ultimately show ?thesis
    using sel names by simp
qed

text \<open>
  C8 as stated fails: \<open>/bin/bash\<close> starts and exits with code 130, and \<open>/bin/sh\<close>
  is tried after it.
\<close>

theorem open_shell_tries_next_after_exit_code:
  "subprocess_run failing_cluster (kubectl_exec ''default'' ''web-1'' ''app'' ''/bin/bash'')
     = Exited 130 \<and>
   fst (action_open_shell failing_cluster web_app) \<noteq> [''/bin/bash''] \<and>
   fst (action_open_shell failing_cluster web_app) = [''/bin/bash'', ''/bin/sh'']"
  by (simp add: action_open_shell_def Let_def web_app_def app_init_def some_client_def
      web_pod_def get_container_names_def or_else_def get_current_namespace_def
      shell_candidates_def failing_cluster_def kubectl_exec_def)

text \<open>
  C9, as the code has it. \<open>on_list_view_selected\<close> checks the view and the kind of the
  item and nothing else. A pod item of the pod list becomes the selected pod and the
  selected container is cleared, whether or not the pod is in the cached list; a
  container item of the container list becomes the selected container and the selected
  pod stays, whether or not a pod is selected or has a container of that name; any other
  event changes nothing. The cached pod list stays in every case.
\<close>

theorem on_list_view_selected_selection:
  "selected_pod (on_list_view_selected env event app) =
     (if list_view_id event = ''pods-list''
      then (case item event of PodItem p \<Rightarrow> Some p | _ \<Rightarrow> selected_pod app)
      else selected_pod app) \<and>
   selected_container (on_list_view_selected env event app) =
     (if list_view_id event = ''pods-list''
      then (case item event of PodItem p \<Rightarrow> None | _ \<Rightarrow> selected_container app)
      else if list_view_id event = ''containers-list''
      then (case item event of ContainerItem cname \<Rightarrow> Some cname | _ \<Rightarrow> selected_container app)
      else selected_container app) \<and>
   pods (on_list_view_selected env event app) = pods app \<and>
   ((list_view_id event \<noteq> ''pods-list'' \<and> list_view_id event \<noteq> ''containers-list'') \<or>
    item event = OtherItem \<longrightarrow> on_list_view_selected env event app = app)"
  by (simp add: on_list_view_selected_def keeps split: list_item.splits)

theorem on_list_view_selected_selection_witness:
  "pods (app_init some_client) = [] \<and>
   selected_pod (on_list_view_selected quiet_cluster
      \<lparr>list_view_id = ''pods-list'', item = PodItem web_pod\<rparr> (app_init some_client))
     = Some web_pod \<and>
   selected_container (on_list_view_selected quiet_cluster
      \<lparr>list_view_id = ''containers-list'', item = ContainerItem ''ghost''\<rparr> web_app)
     = Some ''ghost'' \<and>
   on_list_view_selected quiet_cluster
      \<lparr>list_view_id = ''logs-panel'', item = PodItem web_pod\<rparr> web_app = web_app"
  using
    on_list_view_selected_selection [of quiet_cluster
      "\<lparr>list_view_id = ''pods-list'', item = PodItem web_pod\<rparr>" "app_init some_client"]
    on_list_view_selected_selection [of quiet_cluster
      "\<lparr>list_view_id = ''containers-list'', item = ContainerItem ''ghost''\<rparr>" web_app]
    on_list_view_selected_selection [of quiet_cluster
      "\<lparr>list_view_id = ''logs-panel'', item = PodItem web_pod\<rparr>" web_app]
  by (simp add: app_init_def)

text \<open>
  C9 as stated fails: with an empty cached pod list and nothing selected, selecting a
  pod item makes its pod the selected pod, and selecting a container item selects a
  container while no pod is selected.
\<close>

theorem on_list_view_selected_accepts_unknown:
  "pods (app_init some_client) = [] \<and>
   selected_pod (app_init some_client) = None \<and>
   selected_pod (on_list_view_selected quiet_cluster
      \<lparr>list_view_id = ''pods-list'', item = PodItem web_pod\<rparr> (app_init some_client))
     \<noteq> selected_pod (app_init some_client) \<and>
   selected_container (on_list_view_selected quiet_cluster
      \<lparr>list_view_id = ''containers-list'', item = ContainerItem ''ghost''\<rparr> (app_init some_client))
     \<noteq> selected_container (app_init some_client)"
  by (simp add: on_list_view_selected_def keeps app_init_def)

text \<open>
  C10. On a cluster that answers a log request without \<open>follow\<close> as it answers the
  request with \<open>follow=False\<close> (not following is the default of the call),
  \<open>stream_pod_logs\<close> returns what \<open>get_pod_logs\<close> returns for 100 lines: the logs the
  call returns, or \<open>Error: \<close> followed by the text of the exception it raises.
\<close>

theorem stream_pod_logs_eq_get_pod_logs:
  assumes "read_namespaced_pod_log env
             \<lparr>req_name = pn, req_namespace = namespace c, req_container = cn,
              req_follow = None, req_tail_lines = Some 100\<rparr>
           = read_namespaced_pod_log env
             \<lparr>req_name = pn, req_namespace = namespace c, req_container = cn,
              req_follow = Some False, req_tail_lines = Some 100\<rparr>"
  shows "fst (stream_pod_logs env c pn cn) = fst (get_pod_logs env c pn cn 100) \<and>
         fst (stream_pod_logs env c pn cn) =
           (case read_namespaced_pod_log env
                   \<lparr>req_name = pn, req_namespace = namespace c, req_container = cn,
                    req_follow = Some False, req_tail_lines = Some 100\<rparr> of
              Returns logs \<Rightarrow> logs
            | Raises e \<Rightarrow> ''Error: '' @ e)"
  using assms by (simp add: stream_pod_logs_def get_pod_logs_def split: outcome.splits)

theorem stream_pod_logs_eq_get_pod_logs_witness:
  "read_namespaced_pod_log failing_cluster
     \<lparr>req_name = ''web-1'', req_namespace = namespace some_client, req_container = ''app'',
      req_follow = None, req_tail_lines = Some 100\<rparr>
   = read_namespaced_pod_log failing_cluster
     \<lparr>req_name = ''web-1'', req_namespace = namespace some_client, req_container = ''app'',
      req_follow = Some False, req_tail_lines = Some 100\<rparr> \<and>
   fst (stream_pod_logs failing_cluster some_client ''web-1'' ''app'') = ''Error: (503)'' \<and>
   fst (get_pod_logs failing_cluster some_client ''web-1'' ''app'' 100) = ''Error: (503)'' \<and>
   fst (stream_pod_logs quiet_cluster some_client ''web-1'' ''app'') = example_log \<and>
   fst (get_pod_logs quiet_cluster some_client ''web-1'' ''app'' 100) = example_log"
proof -
  have raises: "read_namespaced_pod_log failing_cluster req = Raises ''(503)''" for req
    by (simp add: failing_cluster_def)
  have returns: "read_namespaced_pod_log quiet_cluster req = Returns example_log" for req
    by (simp add: quiet_cluster_def)
  have same: "read_namespaced_pod_log failing_cluster
     \<lparr>req_name = ''web-1'', req_namespace = namespace some_client, req_container = ''app'',
      req_follow = None, req_tail_lines = Some 100\<rparr>
   = read_namespaced_pod_log failing_cluster
     \<lparr>req_name = ''web-1'', req_namespace = namespace some_client, req_container = ''app'',
      req_follow = Some False, req_tail_lines = Some 100\<rparr>"
    unfolding raises by (rule refl)
  have same': "read_namespaced_pod_log quiet_cluster
     \<lparr>req_name = ''web-1'', req_namespace = namespace some_client, req_container = ''app'',
      req_follow = None, req_tail_lines = Some 100\<rparr>
   = read_namespaced_pod_log quiet_cluster
     \<lparr>req_name = ''web-1'', req_namespace = namespace some_client, req_container = ''app'',
      req_follow = Some False, req_tail_lines = Some 100\<rparr>"
    unfolding returns by (rule refl)
  from stream_pod_logs_eq_get_pod_logs [OF same]
  have "fst (stream_pod_logs failing_cluster some_client ''web-1'' ''app'') = ''Error: (503)''"
   and "fst (get_pod_logs failing_cluster some_client ''web-1'' ''app'' 100) = ''Error: (503)''"
    unfolding raises by auto
  moreover from stream_pod_logs_eq_get_pod_logs [OF same']
  have "fst (stream_pod_logs quiet_cluster some_client ''web-1'' ''app'') = example_log"
   and "fst (get_pod_logs quiet_cluster some_client ''web-1'' ''app'' 100) = example_log"
    unfolding returns by auto
  ultimately show ?thesis using same by blast
qed

end
